theory Spec2Isabelle
  imports Main "HOL-Library.Sublist"
begin

section \<open>Python values used by the scraper\<close>

text \<open>
  The notebook \<^verbatim>\<open>web_scraping.ipynb\<close> works on Python strings, dictionaries and lists.
  Strings are modelled as \<^typ>\<open>string\<close>, dictionaries as maps, and every exception the
  modelled statements can raise is a value of \<open>error\<close>; a function that may raise
  returns \<open>error + 'a\<close> with \<open>Inl\<close> for the exception.
\<close>

datatype error = KeyError | AttributeError | TypeError | ValueError | RequestException

definition bind_res :: "error + 'a \<Rightarrow> ('a \<Rightarrow> error + 'b) \<Rightarrow> error + 'b" where
  "bind_res m f = (case m of Inl e \<Rightarrow> Inl e | Inr x \<Rightarrow> f x)"

text \<open>Subscription \<^verbatim>\<open>d[k]\<close> of a dictionary: a missing key raises \<^verbatim>\<open>KeyError\<close>.\<close>

definition getitem :: "('k \<rightharpoonup> 'v) \<Rightarrow> 'k \<Rightarrow> error + 'v" where
  "getitem d k = (case d k of None \<Rightarrow> Inl KeyError | Some v \<Rightarrow> Inr v)"

text \<open>Nested subscription \<^verbatim>\<open>d[k][j]\<close>, as in \<^verbatim>\<open>labels["price"]["aria_label"]\<close>.\<close>

definition getitem2 :: "('k \<rightharpoonup> ('j \<rightharpoonup> 'v)) \<Rightarrow> 'k \<Rightarrow> 'j \<Rightarrow> error + 'v" where
  "getitem2 d k j = bind_res (getitem d k) (\<lambda>inner. getitem inner j)"

text \<open>
  \<^verbatim>\<open>sub in s\<close> on strings: \<open>sub\<close> occurs in \<open>s\<close> as a contiguous block. The empty string
  occurs in every string.
\<close>

primrec str_in :: "string \<Rightarrow> string \<Rightarrow> bool" where
  "str_in sub [] = (sub = [])"
| "str_in sub (c # cs) = (prefix sub (c # cs) \<or> str_in sub cs)"

text \<open>
  \<^verbatim>\<open>s.strip()\<close>: leading and trailing whitespace removed. A character of the model is a
  code point below 256, and the whitespace characters are the twelve code points below
  256 for which \<^verbatim>\<open>str.isspace\<close> holds: tab, line feed, vertical tab, form feed, carriage
  return, the four separators \<^verbatim>\<open>0x1C\<close> to \<^verbatim>\<open>0x1F\<close>, space, next line \<^verbatim>\<open>0x85\<close> and
  no-break space \<^verbatim>\<open>0xA0\<close>.
\<close>

definition whitespace :: "char list" where
  "whitespace = [CHR 0x09, CHR 0x0A, CHR 0x0B, CHR 0x0C, CHR 0x0D,
                 CHR 0x1C, CHR 0x1D, CHR 0x1E, CHR 0x1F, CHR 0x20,
                 CHR 0x85, CHR 0xA0]"

definition isspace :: "char \<Rightarrow> bool" where
  "isspace c = (c \<in> set whitespace)"

definition strip :: "string \<Rightarrow> string" where
  "strip s = rev (dropWhile isspace (rev (dropWhile isspace s)))"

text \<open>\<^verbatim>\<open>str(n)\<close> of an integer, as the f-string \<^verbatim>\<open>f"{base_url}{page_num}"\<close> formats it.\<close>

definition digit_char :: "nat \<Rightarrow> char" where
  "digit_char d = ''0123456789'' ! d"

fun str_nat :: "nat \<Rightarrow> string" where
  "str_nat n = (if n < 10 then [digit_char n] else str_nat (n div 10) @ [digit_char (n mod 10)])"

declare str_nat.simps [simp del]

definition str_int :: "int \<Rightarrow> string" where
  "str_int i = (if i < 0 then CHR ''-'' # str_nat (nat (- i)) else str_nat (nat i))"

section \<open>Parsed documents and the web\<close>

text \<open>
  The document parser is a collaborator of the program: a parsed page answers the three
  queries the code makes,
  \<^item> \<open>find_all_div_class soup c\<close> for \<^verbatim>\<open>soup.find_all("div", class_=c)\<close>,
  \<^item> \<open>find_span_aria_label soup l\<close> for \<^verbatim>\<open>soup.find("span", {"aria-label": l})\<close>,
  \<^item> \<open>find_span_text soup t\<close> for \<^verbatim>\<open>soup.find("span", text=t)\<close>,

  and the properties below hold whatever the parser answers. A \<open>span\<close> carries its
  \<^verbatim>\<open>.text\<close> and the result of \<^verbatim>\<open>find_next("span")\<close> from it (\<open>None\<close> when no span follows
  in the document). A listing \<open>div\<close> carries the result of \<^verbatim>\<open>find("a")\<close>, the attributes
  of its first link. A tag is always true in a condition, so \<^verbatim>\<open>if elem\<close> tests that the
  element was found.
\<close>

datatype span = Span (span_text: string) (find_next_span: "span option")

datatype div_tag = Div (find_a: "(string \<rightharpoonup> string) option")

record soup =
  find_all_div_class :: "string \<Rightarrow> div_tag list"
  find_span_aria_label :: "string \<Rightarrow> span option"
  find_span_text :: "string \<Rightarrow> span option"

text \<open>
  \<^verbatim>\<open>BeautifulSoup(requests.get(url).content, "html.parser")\<close>: the web maps a URL to the
  parsed page it serves; \<open>None\<close> is a request that raises. A URL serves the same page
  during one run.
\<close>

type_synonym web = "string \<rightharpoonup> soup"

definition fetch :: "web \<Rightarrow> string \<Rightarrow> error + soup" where
  "fetch w url = (case w url of None \<Rightarrow> Inl RequestException | Some s \<Rightarrow> Inr s)"

section \<open>Configuration\<close>

text \<open>
  One entry of \<^verbatim>\<open>config["websites"]\<close>. The field schema \<^verbatim>\<open>FIELDS\<close> is a dictionary of
  dictionaries of label strings.
\<close>

type_synonym labels = "string \<rightharpoonup> (string \<rightharpoonup> string)"

record site_config =
  BASE_DOMAIN :: string
  BASE_PATH :: string
  LISTING_DIV_CLASS :: string
  FIELDS :: labels
  NEIGHBORHOODS :: "string list"

section \<open>get\_property\_links\<close>

text \<open>
  \<^verbatim>\<open>[div.find("a")["href"] for div in listing_divs if div.find("a")]\<close>: a container
  without a link is skipped; a link without \<^verbatim>\<open>href\<close> raises \<^verbatim>\<open>KeyError\<close>.
\<close>

fun hrefs :: "div_tag list \<Rightarrow> error + string list" where
  "hrefs [] = Inr []"
| "hrefs (d # ds) =
     (case find_a d of
        None \<Rightarrow> hrefs ds
      | Some a \<Rightarrow> bind_res (getitem a ''href'') (\<lambda>h. bind_res (hrefs ds) (\<lambda>hs. Inr (h # hs))))"

definition get_property_links :: "web \<Rightarrow> string \<Rightarrow> int \<Rightarrow> string \<Rightarrow> error + string list" where
  "get_property_links w base_url page_num listing_div_class =
     bind_res (fetch w (base_url @ str_int page_num)) (\<lambda>soup.
       hrefs (find_all_div_class soup listing_div_class))"

section \<open>extract\_property\_data\<close>

definition Alexandria :: string where
  "Alexandria = ''Alexandria''"

definition NA :: string where
  "NA = ''N/A''"

text \<open>
  \<^verbatim>\<open>elem.text.strip() if elem else "N/A"\<close>, the rule of the fields \<^verbatim>\<open>price\<close> and
  \<^verbatim>\<open>location\<close>.
\<close>

definition text_or_NA :: "span option \<Rightarrow> string" where
  "text_or_NA elem = (case elem of Some e \<Rightarrow> strip (span_text e) | None \<Rightarrow> NA)"

text \<open>
  \<^verbatim>\<open>label.find_next("span").text.strip() if label else "N/A"\<close>, the rule of the fields
  \<^verbatim>\<open>area\<close>, \<^verbatim>\<open>bedrooms\<close> and \<^verbatim>\<open>bathrooms\<close>. When the label is found and no span
  follows it, \<^verbatim>\<open>find_next\<close> returns \<^verbatim>\<open>None\<close> and \<^verbatim>\<open>.text\<close> raises
  \<^verbatim>\<open>AttributeError\<close>.
\<close>

definition anchor_value :: "span option \<Rightarrow> error + string" where
  "anchor_value label =
     (case label of
        None \<Rightarrow> Inr NA
      | Some l \<Rightarrow> (case find_next_span l of
                     None \<Rightarrow> Inl AttributeError
                   | Some e \<Rightarrow> Inr (strip (span_text e))))"

text \<open>
  The location check:
  \<^verbatim>\<open>
  if any(neighborhood in location for neighborhood in neighborhoods):
      if "Alexandria" not in location:
          location += ", Alexandria"
  else:
      location = "N/A"
  \<close>
\<close>

definition ensure_alexandria :: "string list \<Rightarrow> string \<Rightarrow> string" where
  "ensure_alexandria neighborhoods location =
     (if list_ex (\<lambda>neighborhood. str_in neighborhood location) neighborhoods
      then (if \<not> str_in Alexandria location then location @ '', Alexandria'' else location)
      else NA)"

type_synonym listing = "string \<rightharpoonup> string"

definition extract_property_data ::
  "web \<Rightarrow> string \<Rightarrow> string \<Rightarrow> labels \<Rightarrow> string list \<Rightarrow> error + listing" where
  "extract_property_data w url base_domain lbls neighborhoods =
     bind_res (fetch w (base_domain @ url)) (\<lambda>soup.
     bind_res (getitem2 lbls ''price'' ''aria_label'') (\<lambda>price_label.
     let price_elem = find_span_aria_label soup price_label;
         data = Map.empty(''price'' \<mapsto> text_or_NA price_elem) in
     bind_res (getitem2 lbls ''area'' ''text_label'') (\<lambda>area_text.
     bind_res (anchor_value (find_span_text soup area_text)) (\<lambda>area.
     let data = data(''area'' \<mapsto> area) in
     bind_res (getitem2 lbls ''bedrooms'' ''text_label'') (\<lambda>bedrooms_text.
     bind_res (anchor_value (find_span_text soup bedrooms_text)) (\<lambda>bedrooms.
     let data = data(''bedrooms'' \<mapsto> bedrooms) in
     bind_res (getitem2 lbls ''bathrooms'' ''text_label'') (\<lambda>bathrooms_text.
     bind_res (anchor_value (find_span_text soup bathrooms_text)) (\<lambda>bathrooms.
     let data = data(''bathrooms'' \<mapsto> bathrooms) in
     bind_res (getitem2 lbls ''location'' ''aria_label'') (\<lambda>location_label.
     let location_elem = find_span_aria_label soup location_label;
         location = text_or_NA location_elem;
         location = ensure_alexandria neighborhoods location in
     Inr (data(''location'' \<mapsto> location)))))))))))"

section \<open>scrape\_website\<close>

text \<open>
  The link-collection loop over \<^verbatim>\<open>range(1, max_pages + 1)\<close>, with \<^verbatim>\<open>break\<close> at the
  first page without links. The state is \<^verbatim>\<open>all_links\<close> together with the list of page
  numbers requested so far.
\<close>

fun collect_links ::
  "web \<Rightarrow> string \<Rightarrow> string \<Rightarrow> int list \<Rightarrow> string list \<times> int list \<Rightarrow> error + (string list \<times> int list)" where
  "collect_links w base_url cls [] (all_links, fetched) = Inr (all_links, fetched)"
| "collect_links w base_url cls (page # pages) (all_links, fetched) =
     bind_res (get_property_links w base_url page cls) (\<lambda>links.
       if links = [] then Inr (all_links, fetched @ [page])
       else collect_links w base_url cls pages (all_links @ links, fetched @ [page]))"

definition crawl :: "web \<Rightarrow> site_config \<Rightarrow> int \<Rightarrow> error + (string list \<times> int list)" where
  "crawl w config max_pages =
     collect_links w (BASE_DOMAIN config @ BASE_PATH config) (LISTING_DIV_CLASS config)
       [1..max_pages] ([], [])"

text \<open>
  The extraction loop: every link is extracted, and the record is appended when
  \<^verbatim>\<open>data["location"] != "N/A"\<close>.
\<close>

fun collect_listings ::
  "web \<Rightarrow> site_config \<Rightarrow> string list \<Rightarrow> listing list \<Rightarrow> error + listing list" where
  "collect_listings w config [] listings = Inr listings"
| "collect_listings w config (link # links) listings =
     bind_res (extract_property_data w link (BASE_DOMAIN config) (FIELDS config)
                 (NEIGHBORHOODS config)) (\<lambda>data.
     bind_res (getitem data ''location'') (\<lambda>location.
       collect_listings w config links
         (if location \<noteq> NA then listings @ [data] else listings)))"

text \<open>
  \<^verbatim>\<open>return pd.DataFrame(listings)\<close>: the model returns the list \<^verbatim>\<open>listings\<close>; the frame
  built from it is \<open>DataFrame\<close> of that list, defined with the data frames below.
\<close>

definition scrape_website :: "web \<Rightarrow> site_config \<Rightarrow> int \<Rightarrow> error + listing list" where
  "scrape_website w config max_pages =
     bind_res (crawl w config max_pages) (\<lambda>(all_links, fetched).
       collect_listings w config all_links [])"

section \<open>Data frames\<close>

text \<open>
  A cell of a data frame is a text, a number or the missing value. The rows that
  \<^verbatim>\<open>scrape_website\<close> builds hold texts only; the stored data set is what
  \<^verbatim>\<open>pd.read_csv\<close> returns, which types a column of digits as numbers and cells such as
  \<^verbatim>\<open>N/A\<close> as missing. The type \<open>'n\<close> stands for the numbers of a frame, two of them equal
  when the frame compares them equal. A number, a text and the missing value are never
  equal to one another, and the missing value equals itself when duplicates are looked
  for.
\<close>

datatype 'n cell = Text string | Number 'n | NaN

type_synonym 'n row = "string \<rightharpoonup> 'n cell"

text \<open>
  A frame has its set of column names and its rows in order. A row gives no value for a
  column it was not built with, and such a cell reads as missing. Row labels and the
  order of the columns are not part of the model.
\<close>

record 'n frame =
  columns :: "string set"
  rows :: "'n row list"

definition cell_of :: "'n row \<Rightarrow> string \<Rightarrow> 'n cell" where
  "cell_of r c = (case r c of None \<Rightarrow> NaN | Some v \<Rightarrow> v)"

text \<open>
  \<^verbatim>\<open>pd.DataFrame(listings)\<close> of a list of dictionaries of strings: the columns are the
  keys that occur, one row per dictionary. \<^verbatim>\<open>pd.DataFrame([])\<close> and \<^verbatim>\<open>pd.DataFrame()\<close>
  have no column and no row.
\<close>

definition DataFrame :: "listing list \<Rightarrow> 'n frame" where
  "DataFrame records =
     \<lparr>columns = (\<Union>d\<in>set records. dom d),
      rows = map (\<lambda>d c. map_option Text (d c)) records\<rparr>"

text \<open>
  \<^verbatim>\<open>pd.concat(frames)\<close>: the columns of all frames, the rows appended; no frame at all
  raises \<^verbatim>\<open>ValueError\<close>.
\<close>

definition concat_frames :: "'n frame list \<Rightarrow> 'n frame" where
  "concat_frames fs = \<lparr>columns = (\<Union>f\<in>set fs. columns f), rows = concat (map rows fs)\<rparr>"

definition pd_concat :: "'n frame list \<Rightarrow> error + 'n frame" where
  "pd_concat fs = (if fs = [] then Inl ValueError else Inr (concat_frames fs))"

text \<open>\<^verbatim>\<open>df.empty\<close>: the frame has no row or no column.\<close>

definition empty_frame :: "'n frame \<Rightarrow> bool" where
  "empty_frame df = (rows df = [] \<or> columns df = {})"

section \<open>The incremental merge\<close>

definition subset_columns :: "string list" where
  "subset_columns = [''price'', ''area'', ''bedrooms'', ''bathrooms'', ''location'']"

definition row_key :: "string list \<Rightarrow> 'n row \<Rightarrow> 'n cell list" where
  "row_key cols r = map (cell_of r) cols"

text \<open>
  \<^verbatim>\<open>drop_duplicates(subset=..., keep="first")\<close>: an empty frame is returned as it is; a
  subset column that the frame does not have raises \<^verbatim>\<open>KeyError\<close>; otherwise a row is
  dropped when the values of its subset columns have been seen in an earlier row.
\<close>

fun keep_first :: "string list \<Rightarrow> 'n cell list list \<Rightarrow> 'n row list \<Rightarrow> 'n row list" where
  "keep_first cols seen [] = []"
| "keep_first cols seen (r # rs) =
     (if row_key cols r \<in> set seen then keep_first cols seen rs
      else r # keep_first cols (row_key cols r # seen) rs)"

definition drop_duplicates :: "string list \<Rightarrow> 'n frame \<Rightarrow> error + 'n frame" where
  "drop_duplicates cols df =
     (if empty_frame df then Inr df
      else if \<not> set cols \<subseteq> columns df then Inl KeyError
      else Inr (df\<lparr>rows := keep_first cols [] (rows df)\<rparr>))"

text \<open>
  \<^verbatim>\<open>
  if not existing_data_df.empty:
      combined_df = pd.concat([existing_data_df, new_data_df]).drop_duplicates(
          subset=["price", "area", "bedrooms", "bathrooms", "location"], keep="first")
  else:
      combined_df = new_data_df
  \<close>
\<close>

definition merge :: "'n frame \<Rightarrow> 'n frame \<Rightarrow> error + 'n frame" where
  "merge existing_data_df new_data_df =
     (if \<not> empty_frame existing_data_df
      then bind_res (pd_concat [existing_data_df, new_data_df]) (drop_duplicates subset_columns)
      else Inr new_data_df)"

text \<open>
  The second pass over the new rows:
  \<^verbatim>\<open>
  new_data_df["location"] = new_data_df["location"].apply(
      lambda x: x if "Alexandria" in x else x + ", Alexandria")
  \<close>
  A frame without the column \<^verbatim>\<open>location\<close> raises \<^verbatim>\<open>KeyError\<close>. A cell that is not a text
  is not a string, and \<^verbatim>\<open>in\<close> raises \<^verbatim>\<open>TypeError\<close> on it.
\<close>

definition normalize_location :: "string \<Rightarrow> string" where
  "normalize_location x = (if str_in Alexandria x then x else x @ '', Alexandria'')"

fun apply_cells :: "(string \<Rightarrow> string) \<Rightarrow> 'n row list \<Rightarrow> error + 'n row list" where
  "apply_cells f [] = Inr []"
| "apply_cells f (r # rs) =
     (case cell_of r ''location'' of
        Text x \<Rightarrow> bind_res (apply_cells f rs) (\<lambda>rs'. Inr (r(''location'' \<mapsto> Text (f x)) # rs'))
      | Number n \<Rightarrow> Inl TypeError
      | NaN \<Rightarrow> Inl TypeError)"

definition apply_location :: "(string \<Rightarrow> string) \<Rightarrow> 'n frame \<Rightarrow> error + 'n frame" where
  "apply_location f df =
     (if ''location'' \<notin> columns df then Inl KeyError
      else bind_res (apply_cells f (rows df)) (\<lambda>rs. Inr (df\<lparr>rows := rs\<rparr>)))"

section \<open>Vocabulary of the properties\<close>

text \<open>
  The positions at which \<open>sub\<close> occurs in \<open>s\<close>. The test \<^verbatim>\<open>sub in s\<close> of the program holds
  exactly when this list is not empty (lemma \<open>str_in_occurrences\<close> below).
\<close>

definition occurrences :: "string \<Rightarrow> string \<Rightarrow> nat list" where
  "occurrences sub s = filter (\<lambda>i. prefix sub (drop i s)) [0..<Suc (length s)]"

text \<open>
  The element a text-anchor rule resolves to: the span that follows the label, when the
  label is found and a span follows it.
\<close>

definition anchor_target :: "span option \<Rightarrow> span option" where
  "anchor_target label = (case label of None \<Rightarrow> None | Some l \<Rightarrow> find_next_span l)"

definition listing_keys :: "string set" where
  "listing_keys = {''price'', ''area'', ''bedrooms'', ''bathrooms'', ''location''}"

section \<open>Example inputs\<close>

text \<open>
  Records of a new batch, and rows of a stored data set. The stored villa row has the
  cells of the scraped villa record and one more column; the stored flat row has the
  area, bedrooms and bathrooms of the scraped flat record as numbers.
\<close>

definition listing_villa :: listing where
  "listing_villa = [''price'' \<mapsto> ''4,000,000'', ''area'' \<mapsto> ''200 m'', ''bedrooms'' \<mapsto> ''4+1'',
                    ''bathrooms'' \<mapsto> ''3+'', ''location'' \<mapsto> ''Gleem, Alexandria'']"

definition listing_flat :: listing where
  "listing_flat = [''price'' \<mapsto> ''2,500,000'', ''area'' \<mapsto> ''120'', ''bedrooms'' \<mapsto> ''3'',
                   ''bathrooms'' \<mapsto> ''2'', ''location'' \<mapsto> ''Smouha, Alexandria'']"

definition row_villa_stored :: "int row" where
  "row_villa_stored =
     [''price'' \<mapsto> Text ''4,000,000'', ''area'' \<mapsto> Text ''200 m'', ''bedrooms'' \<mapsto> Text ''4+1'',
      ''bathrooms'' \<mapsto> Text ''3+'', ''location'' \<mapsto> Text ''Gleem, Alexandria'',
      ''note'' \<mapsto> Text ''stored'']"

definition row_flat_stored :: "int row" where
  "row_flat_stored =
     [''price'' \<mapsto> Text ''2,500,000'', ''area'' \<mapsto> Number 120, ''bedrooms'' \<mapsto> Number 3,
      ''bathrooms'' \<mapsto> Number 2, ''location'' \<mapsto> Text ''Smouha, Alexandria'',
      ''note'' \<mapsto> NaN]"

definition stored_columns :: "string set" where
  "stored_columns = {''price'', ''area'', ''bedrooms'', ''bathrooms'', ''location'', ''note''}"

definition stored_frame :: "int frame" where
  "stored_frame = \<lparr>columns = stored_columns, rows = [row_villa_stored, row_flat_stored]\<rparr>"

definition price_only_frame :: "int frame" where
  "price_only_frame = DataFrame [[''price'' \<mapsto> ''4,000,000'']]"

text \<open>A field schema and a site configuration.\<close>

definition example_labels :: labels where
  "example_labels =
     [''price'' \<mapsto> [''aria_label'' \<mapsto> ''Price''],
      ''area'' \<mapsto> [''text_label'' \<mapsto> ''Area''],
      ''bedrooms'' \<mapsto> [''text_label'' \<mapsto> ''Bedrooms''],
      ''bathrooms'' \<mapsto> [''text_label'' \<mapsto> ''Bathrooms''],
      ''location'' \<mapsto> [''aria_label'' \<mapsto> ''Location'']]"

definition example_config :: site_config where
  "example_config =
     \<lparr>BASE_DOMAIN = ''http://site'', BASE_PATH = ''/list?page='', LISTING_DIV_CLASS = ''card'',
      FIELDS = example_labels, NEIGHBORHOODS = [''Smouha'', ''Gleem'']\<rparr>"

text \<open>
  Detail pages. \<open>detail_page price loc\<close> has every field; the price element is absent
  when \<open>price\<close> is \<open>None\<close>. The price text of the first page is padded with a no-break
  space in front and a next-line character and a space behind.
\<close>

definition padded_price :: string where
  "padded_price = CHR 0xA0 # ''2,500,000'' @ [CHR 0x85, CHR 0x20]"

definition detail_page :: "string option \<Rightarrow> string \<Rightarrow> soup" where
  "detail_page price loc =
     \<lparr>find_all_div_class = (\<lambda>c. []),
      find_span_aria_label = (\<lambda>l. if l = ''Price'' then map_option (\<lambda>p. Span p None) price
                                 else if l = ''Location'' then Some (Span loc None) else None),
      find_span_text = (\<lambda>t. if t = ''Area'' then Some (Span ''Area'' (Some (Span '' 120 '' None)))
                           else if t = ''Bedrooms'' then Some (Span ''Bedrooms'' (Some (Span ''3'' None)))
                           else if t = ''Bathrooms'' then Some (Span ''Bathrooms'' (Some (Span ''2'' None)))
                           else None)\<rparr>"

text \<open>
  A detail page whose last span is the label \<^verbatim>\<open><span>Area</span>\<close>: the label is found
  and no span follows it.
\<close>

definition dangling_area_page :: soup where
  "dangling_area_page =
     \<lparr>find_all_div_class = (\<lambda>c. []),
      find_span_aria_label = (\<lambda>l. if l = ''Price'' then Some (Span ''2,500,000'' None)
                                 else if l = ''Location'' then Some (Span ''Smouha'' None) else None),
      find_span_text = (\<lambda>t. if t = ''Area'' then Some (Span ''Area'' None) else None)\<rparr>"

text \<open>
  Listing pages: page 1 has three containers, the second without a link; page 2 has one
  container; page 3 has none.
\<close>

definition listing_page :: "div_tag list \<Rightarrow> soup" where
  "listing_page ds =
     \<lparr>find_all_div_class = (\<lambda>c. if c = ''card'' then ds else []),
      find_span_aria_label = (\<lambda>l. None),
      find_span_text = (\<lambda>t. None)\<rparr>"

definition example_web :: web where
  "example_web =
     [''http://site/list?page=1'' \<mapsto>
        listing_page [Div (Some [''href'' \<mapsto> ''/p1'']), Div None, Div (Some [''href'' \<mapsto> ''/p2''])],
      ''http://site/list?page=2'' \<mapsto> listing_page [Div (Some [''href'' \<mapsto> ''/p4''])],
      ''http://site/list?page=3'' \<mapsto> listing_page [],
      ''http://site/p1'' \<mapsto> detail_page (Some padded_price) ''Smouha'',
      ''http://site/p2'' \<mapsto> detail_page None ''Cairo'',
      ''http://site/p3'' \<mapsto> dangling_area_page,
      ''http://site/p4'' \<mapsto> detail_page None ''Gleem, Alexandria'']"

definition example_links :: "int \<Rightarrow> string list" where
  "example_links p = (if p = 1 then [''/p1'', ''/p2''] else if p = 2 then [''/p4''] else [])"

definition listing_p1 :: listing where
  "listing_p1 = [''price'' \<mapsto> ''2,500,000'', ''area'' \<mapsto> ''120'', ''bedrooms'' \<mapsto> ''3'',
                 ''bathrooms'' \<mapsto> ''2'', ''location'' \<mapsto> ''Smouha, Alexandria'']"

definition listing_p2 :: listing where
  "listing_p2 = [''price'' \<mapsto> ''N/A'', ''area'' \<mapsto> ''120'', ''bedrooms'' \<mapsto> ''3'',
                 ''bathrooms'' \<mapsto> ''2'', ''location'' \<mapsto> ''N/A'']"

definition listing_p4 :: listing where
  "listing_p4 = [''price'' \<mapsto> ''N/A'', ''area'' \<mapsto> ''120'', ''bedrooms'' \<mapsto> ''3'',
                 ''bathrooms'' \<mapsto> ''2'', ''location'' \<mapsto> ''Gleem, Alexandria'']"

section \<open>Facts about strings\<close>

lemma str_in_iff: "str_in sub s \<longleftrightarrow> (\<exists>ps ss. s = ps @ sub @ ss)"
proof (induction s)
  case Nil
  show ?case by auto
next
  case (Cons c cs)
  show ?case
  proof
    assume "str_in sub (c # cs)"
    then consider "prefix sub (c # cs)" | "str_in sub cs" by auto
    then show "\<exists>ps ss. c # cs = ps @ sub @ ss"
    proof cases
      case 1
      then obtain ss where "c # cs = sub @ ss" by (auto simp: prefix_def)
      then have "c # cs = [] @ sub @ ss" by simp
      then show ?thesis by blast
    next
      case 2
      with Cons.IH obtain ps ss where "cs = ps @ sub @ ss" by blast
      then have "c # cs = (c # ps) @ sub @ ss" by simp
      then show ?thesis by blast
    qed
  next
    assume "\<exists>ps ss. c # cs = ps @ sub @ ss"
    then obtain ps ss where eq: "c # cs = ps @ sub @ ss" by blast
    show "str_in sub (c # cs)"
    proof (cases ps)
      case Nil
      with eq have "prefix sub (c # cs)" by (simp add: prefix_def)
      then show ?thesis by simp
    next
      case (Cons p ps')
      with eq have "cs = ps' @ sub @ ss" by simp
      with Cons.IH have "str_in sub cs" by blast
      then show ?thesis by simp
    qed
  qed
qed

lemma str_in_append_right: "str_in sub (xs @ sub)"
  unfolding str_in_iff by (rule exI [of _ xs], rule exI [of _ "[]"]) simp

lemma str_in_suffix: "str_in sub (xs @ ys @ sub)"
proof -
  have "xs @ ys @ sub = (xs @ ys) @ sub @ []" by simp
  then show ?thesis unfolding str_in_iff by blast
qed

lemma prefix_drop_str_in: "prefix sub (drop i s) \<Longrightarrow> str_in sub s"
proof -
  assume "prefix sub (drop i s)"
  then obtain ss where "drop i s = sub @ ss" by (auto simp: prefix_def)
  then have "s = take i s @ sub @ ss" by (metis append_take_drop_id)
  then show "str_in sub s" unfolding str_in_iff by blast
qed

lemma str_in_occurrences: "str_in sub s \<longleftrightarrow> occurrences sub s \<noteq> []"
proof
  assume "str_in sub s"
  then obtain ps ss where s: "s = ps @ sub @ ss" unfolding str_in_iff by blast
  then have "prefix sub (drop (length ps) s)" by simp
  moreover have "length ps \<in> set [0..<Suc (length s)]" using s by simp
  ultimately show "occurrences sub s \<noteq> []"
    unfolding occurrences_def filter_empty_conv by blast
next
  assume "occurrences sub s \<noteq> []"
  then obtain i where "prefix sub (drop i s)"
    unfolding occurrences_def filter_empty_conv by blast
  then obtain ss where "drop i s = sub @ ss" by (auto simp: prefix_def)
  then have "s = take i s @ sub @ ss" by (metis append_take_drop_id)
  then show "str_in sub s" unfolding str_in_iff by blast
qed

lemma filter_eq_upt: "filter (\<lambda>i. i = k) [0..<n] = (if k < n then [k] else [])"
  by (induction n) auto

lemma filter_upt_single:
  assumes "k < n" and "\<And>i. i < n \<Longrightarrow> P i \<longleftrightarrow> i = k"
  shows "filter P [0..<n] = [k]"
proof -
  have "filter P [0..<n] = filter (\<lambda>i. i = k) [0..<n]"
    by (rule filter_cong) (auto simp: assms(2))
  with assms(1) show ?thesis by (simp add: filter_eq_upt)
qed

lemma Alexandria_in_tail: "j \<le> 12 \<Longrightarrow> prefix Alexandria (drop j '', Alexandria'') \<longleftrightarrow> j = 2"
proof
  assume j: "j \<le> 12" and p: "prefix Alexandria (drop j '', Alexandria'')"
  from p have "length Alexandria \<le> length (drop j '', Alexandria'')" by (rule prefix_length_le)
  then have "j \<le> 2" by (simp add: Alexandria_def)
  then consider "j = 0" | "j = 1" | "j = 2" by linarith
  then show "j = 2"
  proof cases
    case 1 with p show ?thesis by (simp add: Alexandria_def)
  next
    case 2 with p show ?thesis by (simp add: Alexandria_def)
  next
    case 3 then show ?thesis .
  qed
next
  assume "j = 2"
  then show "prefix Alexandria (drop j '', Alexandria'')"
    by (simp add: Alexandria_def numeral_2_eq_2)
qed

lemma Alexandria_not_across:
  assumes "\<not> str_in Alexandria raw" and "i < length raw"
  shows "\<not> prefix Alexandria (drop i raw @ '', Alexandria'')"
proof
  assume "prefix Alexandria (drop i raw @ '', Alexandria'')"
  then consider "prefix Alexandria (drop i raw)"
    | us where "Alexandria = drop i raw @ us" "prefix us '', Alexandria''" "us \<noteq> []"
    unfolding prefix_append by (metis append_Nil2 prefix_order.order_refl)
  then show False
  proof cases
    case 1
    with assms(1) show False by (simp add: prefix_drop_str_in)
  next
    case 2
    from 2(2,3) obtain us' where "us = CHR '','' # us'"
      by (cases us) (auto simp: prefix_Cons)
    with 2(1) have "CHR '','' \<in> set Alexandria" by (metis in_set_conv_decomp)
    then show False by (simp add: Alexandria_def)
  qed
qed

lemma occurrences_appended:
  assumes "\<not> str_in Alexandria raw"
  shows "occurrences Alexandria (raw @ '', Alexandria'') = [length raw + 2]"
  unfolding occurrences_def
proof (rule filter_upt_single)
  show "length raw + 2 < Suc (length (raw @ '', Alexandria''))" by simp
next
  fix i assume i: "i < Suc (length (raw @ '', Alexandria''))"
  show "prefix Alexandria (drop i (raw @ '', Alexandria'')) \<longleftrightarrow> i = length raw + 2"
  proof (cases "i < length raw")
    case True
    with Alexandria_not_across [OF assms True] show ?thesis by simp
  next
    case False
    then have "drop i (raw @ '', Alexandria'') = drop (i - length raw) '', Alexandria''" by simp
    moreover from i False have "i - length raw \<le> 12" by simp
    ultimately show ?thesis using False Alexandria_in_tail [of "i - length raw"] by auto
  qed
qed

lemma normalize_contains: "str_in Alexandria (normalize_location x)"
proof (cases "str_in Alexandria x")
  case True
  then show ?thesis by (simp add: normalize_location_def)
next
  case False
  have "str_in Alexandria (x @ '', '' @ Alexandria)" by (rule str_in_suffix)
  then have "str_in Alexandria (x @ '', Alexandria'')" by (simp add: Alexandria_def)
  with False show ?thesis by (simp add: normalize_location_def)
qed

lemma rev_dropWhile_takeWhile:
  "rev (dropWhile P (rev xs)) @ rev (takeWhile P (rev xs)) = xs"
proof -
  have "rev (takeWhile P (rev xs) @ dropWhile P (rev xs)) = rev (rev xs)"
    by (simp only: takeWhile_dropWhile_id)
  then show ?thesis by (simp only: rev_append rev_rev_ident)
qed

lemma strip_decompose:
  "\<exists>l t. s = l @ strip s @ t \<and> list_all isspace l \<and> list_all isspace t"
proof -
  let ?m = "dropWhile isspace s"
  have b: "strip s @ rev (takeWhile isspace (rev ?m)) = ?m"
    unfolding strip_def by (rule rev_dropWhile_takeWhile)
  have c: "list_all isspace (takeWhile isspace s)"
    unfolding list_all_iff by (metis set_takeWhileD)
  have d: "list_all isspace (rev (takeWhile isspace (rev ?m)))"
    unfolding list_all_iff set_rev by (metis set_takeWhileD)
  have "s = takeWhile isspace s @ ?m" by simp
  with b have "s = takeWhile isspace s @ strip s @ rev (takeWhile isspace (rev ?m))"
    by simp
  with c d show ?thesis by blast
qed

lemma strip_ends:
  assumes "strip s \<noteq> []"
  shows "\<not> isspace (hd (strip s)) \<and> \<not> isspace (last (strip s))"
proof -
  let ?m = "dropWhile isspace s"
  from assms have ne: "dropWhile isspace (rev ?m) \<noteq> []" by (simp add: strip_def)
  have "last (strip s) = hd (dropWhile isspace (rev ?m))"
    using ne by (simp add: strip_def last_rev)
  with hd_dropWhile [OF ne] have 1: "\<not> isspace (last (strip s))" by simp
  have b: "strip s @ rev (takeWhile isspace (rev ?m)) = ?m"
    unfolding strip_def by (rule rev_dropWhile_takeWhile)
  with assms have m: "?m \<noteq> []" by (metis append_is_Nil_conv)
  from b assms have "hd ?m = hd (strip s)" by (metis hd_append2)
  with hd_dropWhile [OF m] have "\<not> isspace (hd (strip s))" by simp
  with 1 show ?thesis by simp
qed

section \<open>Facts about the result type\<close>

lemma bind_res_Inr: "bind_res m f = Inr y \<longleftrightarrow> (\<exists>x. m = Inr x \<and> f x = Inr y)"
  by (cases m) (simp_all add: bind_res_def)

lemma bind_res_simps: "bind_res (Inr x) f = f x" "bind_res (Inl e) f = Inl e"
  by (simp_all add: bind_res_def)

section \<open>Facts about extraction\<close>

lemma extract_property_data_Inr:
  assumes "extract_property_data w url base_domain lbls neighborhoods = Inr data"
  shows "\<exists>soup lp la lb lt lloc a b t.
           fetch w (base_domain @ url) = Inr soup
         \<and> getitem2 lbls ''price'' ''aria_label'' = Inr lp
         \<and> getitem2 lbls ''area'' ''text_label'' = Inr la
         \<and> getitem2 lbls ''bedrooms'' ''text_label'' = Inr lb
         \<and> getitem2 lbls ''bathrooms'' ''text_label'' = Inr lt
         \<and> getitem2 lbls ''location'' ''aria_label'' = Inr lloc
         \<and> anchor_value (find_span_text soup la) = Inr a
         \<and> anchor_value (find_span_text soup lb) = Inr b
         \<and> anchor_value (find_span_text soup lt) = Inr t
         \<and> data = [''price'' \<mapsto> text_or_NA (find_span_aria_label soup lp), ''area'' \<mapsto> a,
                    ''bedrooms'' \<mapsto> b, ''bathrooms'' \<mapsto> t,
                    ''location'' \<mapsto> ensure_alexandria neighborhoods
                                       (text_or_NA (find_span_aria_label soup lloc))]"
  using assms unfolding extract_property_data_def bind_res_Inr Let_def by blast

lemma extract_property_data_resolved:
  assumes "fetch w (base_domain @ url) = Inr soup"
      and "getitem2 lbls ''price'' ''aria_label'' = Inr lp"
      and "getitem2 lbls ''area'' ''text_label'' = Inr la"
      and "getitem2 lbls ''bedrooms'' ''text_label'' = Inr lb"
      and "getitem2 lbls ''bathrooms'' ''text_label'' = Inr lt"
      and "getitem2 lbls ''location'' ''aria_label'' = Inr lloc"
      and "anchor_value (find_span_text soup la) = Inr a"
      and "anchor_value (find_span_text soup lb) = Inr b"
      and "anchor_value (find_span_text soup lt) = Inr t"
  shows "extract_property_data w url base_domain lbls neighborhoods =
           Inr [''price'' \<mapsto> text_or_NA (find_span_aria_label soup lp), ''area'' \<mapsto> a,
                ''bedrooms'' \<mapsto> b, ''bathrooms'' \<mapsto> t,
                ''location'' \<mapsto> ensure_alexandria neighborhoods
                                   (text_or_NA (find_span_aria_label soup lloc))]"
  unfolding extract_property_data_def using assms by (simp add: bind_res_simps Let_def)

lemma extract_location:
  assumes "extract_property_data w url base_domain lbls neighborhoods = Inr data"
      and "fetch w (base_domain @ url) = Inr soup"
      and "getitem2 lbls ''location'' ''aria_label'' = Inr lloc"
  shows "data ''location'' =
           Some (ensure_alexandria neighborhoods (text_or_NA (find_span_aria_label soup lloc)))"
proof -
  from extract_property_data_Inr [OF assms(1)] assms(2,3) show ?thesis by auto
qed

lemma extract_dom:
  assumes "extract_property_data w url base_domain lbls neighborhoods = Inr data"
  shows "dom data = listing_keys"
proof -
  from extract_property_data_Inr [OF assms] show ?thesis
    unfolding listing_keys_def by (auto split: if_splits)
qed

lemma ensure_alexandria_cases:
  "ensure_alexandria nbs loc = NA \<or>
   (list_ex (\<lambda>n. str_in n loc) nbs \<and> str_in Alexandria (ensure_alexandria nbs loc))"
proof (cases "list_ex (\<lambda>n. str_in n loc) nbs")
  case False
  then show ?thesis by (simp add: ensure_alexandria_def)
next
  case True
  have "str_in Alexandria (loc @ '', '' @ Alexandria)" by (rule str_in_suffix)
  then have "str_in Alexandria (loc @ '', Alexandria'')" by (simp add: Alexandria_def)
  with True show ?thesis by (simp add: ensure_alexandria_def)
qed

lemma anchor_value_target:
  assumes "label \<noteq> None \<longrightarrow> anchor_target label \<noteq> None"
  shows "anchor_value label = Inr (text_or_NA (anchor_target label))"
  using assms
  by (auto simp: anchor_value_def anchor_target_def text_or_NA_def split: option.splits)

section \<open>Facts about the two loops of scrape\_website\<close>

lemma collect_links_nonempty_prefix:
  assumes "\<forall>p\<in>set ps. get_property_links w base p cls = Inr (links p) \<and> links p \<noteq> []"
  shows "collect_links w base cls (ps @ qs) (la, f) =
         collect_links w base cls qs (la @ concat (map links ps), f @ ps)"
  using assms
proof (induction ps arbitrary: la f)
  case Nil
  show ?case by simp
next
  case (Cons p ps)
  from Cons.prems have p: "get_property_links w base p cls = Inr (links p)" "links p \<noteq> []"
    and rest: "\<forall>p\<in>set ps. get_property_links w base p cls = Inr (links p) \<and> links p \<noteq> []"
    by auto
  have "collect_links w base cls ((p # ps) @ qs) (la, f) =
        collect_links w base cls (ps @ qs) (la @ links p, f @ [p])"
    using p by (simp add: bind_res_simps)
  also have "\<dots> = collect_links w base cls qs ((la @ links p) @ concat (map links ps), (f @ [p]) @ ps)"
    by (rule Cons.IH [OF rest])
  finally show ?case by simp
qed

lemma collect_links_stop:
  assumes "get_property_links w base k cls = Inr []"
  shows "collect_links w base cls (k # qs) (la, f) = Inr (la, f @ [k])"
  using assms by (simp add: bind_res_simps)

lemma collect_listings_Inr:
  assumes "collect_listings w config links acc = Inr out"
  shows "\<exists>ds. map (\<lambda>link. extract_property_data w link (BASE_DOMAIN config) (FIELDS config)
                        (NEIGHBORHOODS config)) links = map Inr ds
            \<and> out = acc @ filter (\<lambda>d. d ''location'' \<noteq> Some NA) ds"
  using assms
proof (induction links arbitrary: acc)
  case Nil
  then show ?case by simp
next
  case (Cons link links)
  from Cons.prems obtain data location where
      e: "extract_property_data w link (BASE_DOMAIN config) (FIELDS config) (NEIGHBORHOODS config) = Inr data"
    and g: "getitem data ''location'' = Inr location"
    and r: "collect_listings w config links (if location \<noteq> NA then acc @ [data] else acc) = Inr out"
    by (auto simp: bind_res_Inr)
  from g have loc: "data ''location'' = Some location"
    by (auto simp: getitem_def split: option.splits)
  from Cons.IH [OF r] obtain ds where
      m: "map (\<lambda>link. extract_property_data w link (BASE_DOMAIN config) (FIELDS config)
                        (NEIGHBORHOODS config)) links = map Inr ds"
    and o: "out = (if location \<noteq> NA then acc @ [data] else acc) @ filter (\<lambda>d. d ''location'' \<noteq> Some NA) ds"
    by blast
  have "map (\<lambda>link. extract_property_data w link (BASE_DOMAIN config) (FIELDS config)
                        (NEIGHBORHOODS config)) (link # links) = map Inr (data # ds)"
    using e m by simp
  moreover have "out = acc @ filter (\<lambda>d. d ''location'' \<noteq> Some NA) (data # ds)"
    using o loc by simp
  ultimately show ?case by blast
qed

lemma scrape_website_Inr:
  assumes "scrape_website w config max_pages = Inr batch"
  shows "\<exists>links fetched ds.
           crawl w config max_pages = Inr (links, fetched)
         \<and> map (\<lambda>link. extract_property_data w link (BASE_DOMAIN config) (FIELDS config)
                        (NEIGHBORHOODS config)) links = map Inr ds
         \<and> batch = filter (\<lambda>d. d ''location'' \<noteq> Some NA) ds"
proof -
  from assms obtain links fetched where
      c: "crawl w config max_pages = Inr (links, fetched)"
    and l: "collect_listings w config links [] = Inr batch"
    by (auto simp: scrape_website_def bind_res_Inr)
  from collect_listings_Inr [OF l] c show ?thesis by auto
qed

lemma scrape_website_member:
  assumes "scrape_website w config max_pages = Inr batch" and "d \<in> set batch"
  shows "\<exists>links fetched link.
           crawl w config max_pages = Inr (links, fetched) \<and> link \<in> set links
         \<and> extract_property_data w link (BASE_DOMAIN config) (FIELDS config)
               (NEIGHBORHOODS config) = Inr d
         \<and> d ''location'' \<noteq> Some NA"
proof -
  from scrape_website_Inr [OF assms(1)] obtain links fetched ds where
      c: "crawl w config max_pages = Inr (links, fetched)"
    and m: "map (\<lambda>link. extract_property_data w link (BASE_DOMAIN config) (FIELDS config)
                        (NEIGHBORHOODS config)) links = map Inr ds"
    and b: "batch = filter (\<lambda>d. d ''location'' \<noteq> Some NA) ds"
    by blast
  from b assms(2) have d: "d \<in> set ds" and gate: "d ''location'' \<noteq> Some NA" by auto
  from d have "Inr d \<in> set (map (\<lambda>link. extract_property_data w link (BASE_DOMAIN config)
                     (FIELDS config) (NEIGHBORHOODS config)) links)"
    unfolding m by simp
  then obtain link where "link \<in> set links"
    and "extract_property_data w link (BASE_DOMAIN config) (FIELDS config) (NEIGHBORHOODS config) = Inr d"
    by auto
  with c gate show ?thesis by blast
qed

section \<open>Facts about drop\_duplicates\<close>






lemma keep_first_id:
  "distinct (map (row_key cols) df) \<Longrightarrow> set (map (row_key cols) df) \<inter> set seen = {} \<Longrightarrow>
   keep_first cols seen df = df"
  by (induction df arbitrary: seen) auto


section \<open>Facts about frames, the merge and the second pass\<close>

lemma DataFrame_empty: "empty_frame (DataFrame [])"
  by (simp add: DataFrame_def empty_frame_def)

lemma DataFrame_rows: "rows (DataFrame ds) = map (\<lambda>d c. map_option Text (d c)) ds"
  by (simp add: DataFrame_def)

lemma DataFrame_columns: "columns (DataFrame ds) = (\<Union>d\<in>set ds. dom d)"
  by (simp add: DataFrame_def)

lemma merge_nonempty:
  assumes "\<not> empty_frame existing" and "set subset_columns \<subseteq> columns existing \<union> columns new"
  shows "merge existing new =
           Inr \<lparr>columns = columns existing \<union> columns new,
                rows = keep_first subset_columns [] (rows existing @ rows new)\<rparr>"
  using assms
  by (simp add: merge_def pd_concat_def concat_frames_def drop_duplicates_def empty_frame_def
        bind_res_simps)

lemma merge_missing_column:
  assumes "\<not> empty_frame existing" and "\<not> set subset_columns \<subseteq> columns existing \<union> columns new"
  shows "merge existing new = Inl KeyError"
  using assms
  by (simp add: merge_def pd_concat_def concat_frames_def drop_duplicates_def empty_frame_def
        bind_res_simps)

lemma apply_cells_fixed:
  assumes "\<forall>r\<in>set rs. \<exists>x. r ''location'' = Some (Text x) \<and> f x = x"
  shows "apply_cells f rs = Inr rs"
  using assms
proof (induction rs)
  case Nil
  show ?case by simp
next
  case (Cons r rs)
  then obtain x where x: "r ''location'' = Some (Text x)" "f x = x" by auto
  then have "r(''location'' \<mapsto> Text (f x)) = r" by (simp add: map_upd_triv)
  with Cons x show ?case by (simp add: bind_res_simps cell_of_def)
qed

lemma apply_location_DataFrame:
  assumes "batch \<noteq> []" and "\<forall>d\<in>set batch. \<exists>x. d ''location'' = Some x \<and> f x = x"
  shows "apply_location f (DataFrame batch :: 'n frame) = Inr (DataFrame batch)"
proof -
  let ?df = "DataFrame batch :: 'n frame"
  from assms obtain d where "d \<in> set batch" "''location'' \<in> dom d"
    by (cases batch) auto
  then have c: "''location'' \<in> columns ?df"
    unfolding DataFrame_columns by blast
  from assms(2) have "\<forall>r\<in>set (rows ?df). \<exists>x. r ''location'' = Some (Text x) \<and> f x = x"
    unfolding DataFrame_rows by auto
  then have "apply_cells f (rows ?df) = Inr (rows ?df)"
    by (rule apply_cells_fixed)
  with c show ?thesis by (simp add: apply_location_def bind_res_simps)
qed

lemma apply_location_empty_batch: "apply_location f (DataFrame []) = Inl KeyError"
  by (simp add: apply_location_def DataFrame_def)

section \<open>The example site, evaluated\<close>

lemmas eval_defs = extract_property_data_def example_web_def fetch_def bind_res_def getitem2_def
  getitem_def example_labels_def detail_page_def dangling_area_page_def text_or_NA_def
  anchor_value_def strip_def isspace_def whitespace_def ensure_alexandria_def Alexandria_def NA_def padded_price_def

lemma extract_p1:
  "extract_property_data example_web ''/p1'' ''http://site'' example_labels [''Smouha'', ''Gleem'']
   = Inr listing_p1"
  by (simp add: eval_defs listing_p1_def)

lemma extract_p2:
  "extract_property_data example_web ''/p2'' ''http://site'' example_labels [''Smouha'', ''Gleem'']
   = Inr listing_p2"
  by (simp add: eval_defs listing_p2_def)

lemma extract_p4:
  "extract_property_data example_web ''/p4'' ''http://site'' example_labels [''Smouha'', ''Gleem'']
   = Inr listing_p4"
  by (simp add: eval_defs listing_p4_def)

lemma links_example:
  "get_property_links example_web ''http://site/list?page='' 1 ''card'' = Inr (example_links 1)"
  "get_property_links example_web ''http://site/list?page='' 2 ''card'' = Inr (example_links 2)"
  "get_property_links example_web ''http://site/list?page='' 3 ''card'' = Inr (example_links 3)"
  by (simp_all add: get_property_links_def example_web_def fetch_def bind_res_def getitem_def
        listing_page_def str_int_def str_nat.simps digit_char_def example_links_def)

lemma int_1_to_3: "p \<in> {1..3} \<Longrightarrow> p = 1 \<or> p = 2 \<or> p = (3::int)"
  by auto

lemma links_example_all:
  "\<forall>p\<in>{1..3}. get_property_links example_web ''http://site/list?page='' p ''card''
                 = Inr (example_links p)"
proof
  fix p :: int assume "p \<in> {1..3}"
  then have "p = 1 \<or> p = 2 \<or> p = 3" by (rule int_1_to_3)
  then show "get_property_links example_web ''http://site/list?page='' p ''card''
                 = Inr (example_links p)"
    using links_example by blast
qed

lemma example_config_sel:
  "BASE_DOMAIN example_config @ BASE_PATH example_config = ''http://site/list?page=''"
  "LISTING_DIV_CLASS example_config = ''card''"
  "FIELDS example_config = example_labels"
  "NEIGHBORHOODS example_config = [''Smouha'', ''Gleem'']"
  by (simp_all add: example_config_def)

lemma example_config_domain: "BASE_DOMAIN example_config = ''http://site''"
  by (simp add: example_config_def)

lemma crawl_example: "crawl example_web example_config 5 = Inr ([''/p1'', ''/p2'', ''/p4''], [1, 2, 3])"
  by (simp add: crawl_def example_config_def links_example example_links_def bind_res_def upto_rec1)

lemma scrape_example: "scrape_website example_web example_config 5 = Inr [listing_p1, listing_p4]"
  unfolding scrape_website_def crawl_example
  by (simp add: bind_res_def extract_p1 extract_p2 extract_p4 example_config_def getitem_def
        listing_p1_def listing_p2_def listing_p4_def NA_def)

lemma strip_padded_price: "strip padded_price = ''2,500,000''"
  by (simp add: strip_def padded_price_def isspace_def whitespace_def)

lemma row_key_villa:
  "row_key subset_columns (\<lambda>c. map_option Text (listing_villa c))
   = [Text ''4,000,000'', Text ''200 m'', Text ''4+1'', Text ''3+'', Text ''Gleem, Alexandria'']"
  "row_key subset_columns row_villa_stored
   = [Text ''4,000,000'', Text ''200 m'', Text ''4+1'', Text ''3+'', Text ''Gleem, Alexandria'']"
  by (simp_all add: row_key_def subset_columns_def cell_of_def listing_villa_def row_villa_stored_def)

lemma row_key_flat:
  "row_key subset_columns (\<lambda>c. map_option Text (listing_flat c))
   = [Text ''2,500,000'', Text ''120'', Text ''3'', Text ''2'', Text ''Smouha, Alexandria'']"
  "row_key subset_columns row_flat_stored
   = [Text ''2,500,000'', Number 120, Number 3, Number 2, Text ''Smouha, Alexandria'']"
  by (simp_all add: row_key_def subset_columns_def cell_of_def listing_flat_def row_flat_stored_def)

lemma stored_frame_nonempty: "\<not> empty_frame stored_frame"
  by (simp add: empty_frame_def stored_frame_def stored_columns_def)

lemma stored_frame_has_subset: "set subset_columns \<subseteq> columns stored_frame"
  by (simp add: subset_columns_def stored_frame_def stored_columns_def)

lemma stored_frame_distinct: "distinct (map (row_key subset_columns) (rows stored_frame))"
  by (simp add: stored_frame_def row_key_villa row_key_flat)

lemma new_batch_columns: "columns (DataFrame [listing_villa, listing_flat] :: int frame) \<subseteq> stored_columns"
  by (auto simp: DataFrame_columns listing_villa_def listing_flat_def stored_columns_def split: if_splits)

lemma merge_example:
  "merge stored_frame (DataFrame [listing_villa, listing_flat])
   = Inr \<lparr>columns = stored_columns,
          rows = [row_villa_stored, row_flat_stored, \<lambda>c. map_option Text (listing_flat c)]\<rparr>"
proof -
  have "columns stored_frame \<union> columns (DataFrame [listing_villa, listing_flat] :: int frame) = stored_columns"
    using new_batch_columns by (auto simp: stored_frame_def)
  moreover have "keep_first subset_columns [] (rows stored_frame @ rows (DataFrame [listing_villa, listing_flat]))
     = [row_villa_stored, row_flat_stored, \<lambda>c. map_option Text (listing_flat c)]"
    by (simp add: stored_frame_def DataFrame_rows row_key_villa row_key_flat)
  moreover have "set subset_columns \<subseteq> columns stored_frame \<union> columns (DataFrame [listing_villa, listing_flat] :: int frame)"
    using stored_frame_has_subset by auto
  ultimately show ?thesis
    using merge_nonempty [OF stored_frame_nonempty, of "DataFrame [listing_villa, listing_flat]"]
    by simp
qed

section \<open>Properties of the crawl-and-merge pipeline\<close>

subsection \<open>Merge and deduplication\<close>




text \<open>
  Claim C6, as the code has it. The result of a merge can hold two rows of the same
  composite key (a batch merged into an empty data set is returned as it is), and
  merging such a result with an empty batch removes a row. What holds: a data set that is
  not empty, has the five key columns and has no two rows of the same composite key is
  returned unchanged, rows and order, by a merge with a batch that has no row and no
  column beyond its own; merging an empty data set returns the batch.
\<close>

theorem merge_empty_batch_identity:
  fixes D E :: "'n frame"
  shows "(\<not> empty_frame D \<and> set subset_columns \<subseteq> columns D
          \<and> distinct (map (row_key subset_columns) (rows D))
          \<and> rows E = [] \<and> columns E \<subseteq> columns D
        \<longrightarrow> merge D E = Inr D)
       \<and> (empty_frame D \<longrightarrow> merge D E = Inr E)"
proof (intro conjI impI)
  assume "empty_frame D"
  then show "merge D E = Inr E" by (simp add: merge_def)
next
  assume h: "\<not> empty_frame D \<and> set subset_columns \<subseteq> columns D
          \<and> distinct (map (row_key subset_columns) (rows D))
          \<and> rows E = [] \<and> columns E \<subseteq> columns D"
  then have c: "columns D \<union> columns E = columns D" by auto
  from h have "keep_first subset_columns [] (rows D) = rows D"
    by (intro keep_first_id) simp_all
  moreover from h have "merge D E = Inr \<lparr>columns = columns D \<union> columns E,
       rows = keep_first subset_columns [] (rows D @ rows E)\<rparr>"
    by (intro merge_nonempty) auto
  ultimately show "merge D E = Inr D" using h c by simp
qed

theorem merge_empty_batch_identity_witness:
  "\<not> empty_frame stored_frame
   \<and> set subset_columns \<subseteq> columns stored_frame
   \<and> distinct (map (row_key subset_columns) (rows stored_frame))
   \<and> rows (DataFrame [] :: int frame) = []
   \<and> columns (DataFrame [] :: int frame) \<subseteq> columns stored_frame
   \<and> merge stored_frame (DataFrame []) = Inr stored_frame
   \<and> empty_frame (DataFrame [] :: int frame)
   \<and> merge (DataFrame [] :: int frame) (DataFrame []) = Inr (DataFrame [])"
proof -
  have r: "rows (DataFrame [] :: int frame) = []" by (simp add: DataFrame_rows)
  have c: "columns (DataFrame [] :: int frame) \<subseteq> columns stored_frame"
    by (simp add: DataFrame_columns)
  have n: "empty_frame (DataFrame [] :: int frame)" by (rule DataFrame_empty)
  from merge_empty_batch_identity [of stored_frame "DataFrame []"]
       stored_frame_nonempty stored_frame_has_subset stored_frame_distinct r c
  have a: "merge stored_frame (DataFrame []) = Inr stored_frame" by blast
  from merge_empty_batch_identity [of "DataFrame [] :: int frame" "DataFrame []"] n
  have b: "merge (DataFrame [] :: int frame) (DataFrame []) = Inr (DataFrame [])" by blast
  from stored_frame_nonempty stored_frame_has_subset stored_frame_distinct r c a n b
  show ?thesis by blast
qed

theorem merge_result_not_idempotent_counterexample:
  "merge (DataFrame []) (DataFrame [listing_flat, listing_flat] :: int frame)
     = Inr (DataFrame [listing_flat, listing_flat])
   \<and> merge (DataFrame [listing_flat, listing_flat]) (DataFrame [] :: int frame)
     = Inr (DataFrame [listing_flat])
   \<and> rows (DataFrame [listing_flat] :: int frame) \<noteq> rows (DataFrame [listing_flat, listing_flat])
   \<and> merge (DataFrame []) price_only_frame = Inr price_only_frame
   \<and> distinct (map (row_key subset_columns) (rows price_only_frame))
   \<and> merge price_only_frame (DataFrame []) = Inl KeyError"
proof -
  let ?two = "DataFrame [listing_flat, listing_flat] :: int frame"
  have a: "merge (DataFrame []) ?two = Inr ?two"
    by (simp add: merge_def DataFrame_empty)
  have ne: "\<not> empty_frame ?two"
    by (simp add: empty_frame_def DataFrame_def listing_flat_def)
  have sub: "set subset_columns \<subseteq> columns ?two \<union> columns (DataFrame [] :: int frame)"
    by (simp add: DataFrame_columns subset_columns_def listing_flat_def)
  have "merge ?two (DataFrame []) =
          Inr \<lparr>columns = columns ?two \<union> columns (DataFrame [] :: int frame),
               rows = keep_first subset_columns [] (rows ?two @ rows (DataFrame [] :: int frame))\<rparr>"
    by (rule merge_nonempty [OF ne sub])
  also have "\<dots> = Inr (DataFrame [listing_flat])"
    by (simp add: DataFrame_def)
  finally have b: "merge ?two (DataFrame []) = Inr (DataFrame [listing_flat])" .
  have c: "rows (DataFrame [listing_flat] :: int frame) \<noteq> rows ?two"
    by (simp add: DataFrame_rows)
  have d: "merge (DataFrame []) price_only_frame = Inr price_only_frame"
    by (simp add: merge_def DataFrame_empty)
  have e: "distinct (map (row_key subset_columns) (rows price_only_frame))"
    by (simp add: price_only_frame_def DataFrame_rows)
  have pne: "\<not> empty_frame price_only_frame"
    by (simp add: empty_frame_def price_only_frame_def DataFrame_def)
  have psub: "\<not> set subset_columns \<subseteq> columns price_only_frame \<union> columns (DataFrame [] :: int frame)"
    by (simp add: price_only_frame_def DataFrame_columns subset_columns_def)
  have f: "merge price_only_frame (DataFrame []) = Inl KeyError"
    by (rule merge_missing_column [OF pne psub])
  from a b c d e f show ?thesis by blast
qed

text \<open>
  Claim C7. When the stored data set is empty, the result of the merge is the new batch,
  unchanged.
\<close>

theorem merge_without_prior_dataset:
  assumes "empty_frame existing"
  shows "merge existing B = Inr B"
  using assms by (simp add: merge_def)

theorem merge_without_prior_dataset_witness:
  "empty_frame (DataFrame [] :: int frame)
   \<and> merge (DataFrame []) (DataFrame [listing_flat, listing_flat, listing_villa] :: int frame)
       = Inr (DataFrame [listing_flat, listing_flat, listing_villa])"
  using merge_without_prior_dataset
          [of "DataFrame [] :: int frame" "DataFrame [listing_flat, listing_flat, listing_villa]"]
        DataFrame_empty [where 'a = int]
  by blast

text \<open>
  Claim C9. The second-pass normalization
  \<^verbatim>\<open>lambda x: x if "Alexandria" in x else x + ", Alexandria"\<close> is idempotent, and its
  result always contains \<^verbatim>\<open>Alexandria\<close>.
\<close>

theorem normalize_location_idempotent:
  "normalize_location (normalize_location x) = normalize_location x
   \<and> str_in Alexandria (normalize_location x)"
proof -
  have c: "str_in Alexandria (normalize_location x)" by (rule normalize_contains)
  then have "normalize_location (normalize_location x) = normalize_location x"
    by (subst normalize_location_def) simp
  with c show ?thesis by simp
qed

subsection \<open>Field extraction\<close>

text \<open>
  Claim C2 asks that extraction never raises for a missing element, also when the label of
  a text-anchor field is found and no span follows it. On such a page
  \<^verbatim>\<open>area_label.find_next("span")\<close> is \<^verbatim>\<open>None\<close>, the guard \<^verbatim>\<open>if area_label\<close> passes, and
  \<^verbatim>\<open>.text\<close> raises \<^verbatim>\<open>AttributeError\<close>: the code at that input.
\<close>

theorem extract_raises_on_dangling_label:
  "find_span_text dangling_area_page ''Area'' = Some (Span ''Area'' None)
   \<and> find_next_span (Span ''Area'' None) = None
   \<and> extract_property_data example_web ''/p3'' ''http://site'' example_labels [''Smouha'', ''Gleem'']
       = Inl AttributeError"
  by (simp add: eval_defs)

text \<open>
  Claim C8, as the code has it. Whenever \<open>extract_property_data\<close> returns, the record has
  exactly the five keys \<open>price\<close>, \<open>area\<close>, \<open>bedrooms\<close>, \<open>bathrooms\<close>, \<open>location\<close>. When the
  page is fetched, the schema has the five labels, and every text-anchor label that is
  found is followed by a span, it returns, and every field is decided on its own: \<open>price\<close>,
  \<open>area\<close>, \<open>bedrooms\<close> and \<open>bathrooms\<close> hold the stripped text of the element their rule
  resolves to, or \<^verbatim>\<open>N/A\<close> when there is none; \<open>location\<close> holds the result of the
  neighborhood check on the extracted location text (or on \<^verbatim>\<open>N/A\<close> when the element is
  missing), which is not the extracted text itself when that text names no configured
  neighborhood or lacks \<^verbatim>\<open>Alexandria\<close>. The stripped text is the text without the
  whitespace in front of it and behind it: it is empty, or begins and ends with a
  character that is not whitespace.
\<close>

theorem extract_field_fallback:
  "(extract_property_data w url base_domain lbls neighborhoods = Inr data
      \<longrightarrow> dom data = listing_keys)
   \<and> (fetch w (base_domain @ url) = Inr soup
      \<and> getitem2 lbls ''price'' ''aria_label'' = Inr price_label
      \<and> getitem2 lbls ''area'' ''text_label'' = Inr area_text
      \<and> getitem2 lbls ''bedrooms'' ''text_label'' = Inr bedrooms_text
      \<and> getitem2 lbls ''bathrooms'' ''text_label'' = Inr bathrooms_text
      \<and> getitem2 lbls ''location'' ''aria_label'' = Inr location_label
      \<and> (find_span_text soup area_text \<noteq> None
           \<longrightarrow> anchor_target (find_span_text soup area_text) \<noteq> None)
      \<and> (find_span_text soup bedrooms_text \<noteq> None
           \<longrightarrow> anchor_target (find_span_text soup bedrooms_text) \<noteq> None)
      \<and> (find_span_text soup bathrooms_text \<noteq> None
           \<longrightarrow> anchor_target (find_span_text soup bathrooms_text) \<noteq> None)
    \<longrightarrow> extract_property_data w url base_domain lbls neighborhoods =
          Inr [''price'' \<mapsto> text_or_NA (find_span_aria_label soup price_label),
               ''area'' \<mapsto> text_or_NA (anchor_target (find_span_text soup area_text)),
               ''bedrooms'' \<mapsto> text_or_NA (anchor_target (find_span_text soup bedrooms_text)),
               ''bathrooms'' \<mapsto> text_or_NA (anchor_target (find_span_text soup bathrooms_text)),
               ''location'' \<mapsto> ensure_alexandria neighborhoods
                                  (text_or_NA (find_span_aria_label soup location_label))])
   \<and> text_or_NA None = NA
   \<and> text_or_NA (Some e) = strip (span_text e)
   \<and> (\<exists>l t. span_text e = l @ strip (span_text e) @ t
          \<and> list_all isspace l \<and> list_all isspace t)
   \<and> (strip (span_text e) = []
        \<or> (\<not> isspace (hd (strip (span_text e))) \<and> \<not> isspace (last (strip (span_text e)))))"
proof (intro conjI impI)
  assume "extract_property_data w url base_domain lbls neighborhoods = Inr data"
  then show "dom data = listing_keys" by (rule extract_dom)
next
  assume h: "fetch w (base_domain @ url) = Inr soup
      \<and> getitem2 lbls ''price'' ''aria_label'' = Inr price_label
      \<and> getitem2 lbls ''area'' ''text_label'' = Inr area_text
      \<and> getitem2 lbls ''bedrooms'' ''text_label'' = Inr bedrooms_text
      \<and> getitem2 lbls ''bathrooms'' ''text_label'' = Inr bathrooms_text
      \<and> getitem2 lbls ''location'' ''aria_label'' = Inr location_label
      \<and> (find_span_text soup area_text \<noteq> None
           \<longrightarrow> anchor_target (find_span_text soup area_text) \<noteq> None)
      \<and> (find_span_text soup bedrooms_text \<noteq> None
           \<longrightarrow> anchor_target (find_span_text soup bedrooms_text) \<noteq> None)
      \<and> (find_span_text soup bathrooms_text \<noteq> None
           \<longrightarrow> anchor_target (find_span_text soup bathrooms_text) \<noteq> None)"
  from h have a: "anchor_value (find_span_text soup area_text)
      = Inr (text_or_NA (anchor_target (find_span_text soup area_text)))"
    by (intro anchor_value_target) simp
  from h have b: "anchor_value (find_span_text soup bedrooms_text)
      = Inr (text_or_NA (anchor_target (find_span_text soup bedrooms_text)))"
    by (intro anchor_value_target) simp
  from h have t: "anchor_value (find_span_text soup bathrooms_text)
      = Inr (text_or_NA (anchor_target (find_span_text soup bathrooms_text)))"
    by (intro anchor_value_target) simp
  from h have f: "fetch w (base_domain @ url) = Inr soup"
    and l1: "getitem2 lbls ''price'' ''aria_label'' = Inr price_label"
    and l2: "getitem2 lbls ''area'' ''text_label'' = Inr area_text"
    and l3: "getitem2 lbls ''bedrooms'' ''text_label'' = Inr bedrooms_text"
    and l4: "getitem2 lbls ''bathrooms'' ''text_label'' = Inr bathrooms_text"
    and l5: "getitem2 lbls ''location'' ''aria_label'' = Inr location_label"
    by simp_all
  show "extract_property_data w url base_domain lbls neighborhoods =
          Inr [''price'' \<mapsto> text_or_NA (find_span_aria_label soup price_label),
               ''area'' \<mapsto> text_or_NA (anchor_target (find_span_text soup area_text)),
               ''bedrooms'' \<mapsto> text_or_NA (anchor_target (find_span_text soup bedrooms_text)),
               ''bathrooms'' \<mapsto> text_or_NA (anchor_target (find_span_text soup bathrooms_text)),
               ''location'' \<mapsto> ensure_alexandria neighborhoods
                                  (text_or_NA (find_span_aria_label soup location_label))]"
    by (rule extract_property_data_resolved [OF f l1 l2 l3 l4 l5 a b t])
next
  show "text_or_NA None = NA" by (simp add: text_or_NA_def)
next
  show "text_or_NA (Some e) = strip (span_text e)" by (simp add: text_or_NA_def)
next
  show "\<exists>l t. span_text e = l @ strip (span_text e) @ t
          \<and> list_all isspace l \<and> list_all isspace t"
    by (rule strip_decompose)
next
  show "strip (span_text e) = []
        \<or> (\<not> isspace (hd (strip (span_text e))) \<and> \<not> isspace (last (strip (span_text e))))"
    using strip_ends [of "span_text e"] by blast
qed

theorem extract_field_fallback_witness:
  "extract_property_data example_web ''/p4'' ''http://site'' example_labels [''Smouha'', ''Gleem'']
     = Inr listing_p4
   \<and> dom listing_p4 = listing_keys
   \<and> find_span_aria_label (detail_page None ''Gleem, Alexandria'') ''Price'' = None
   \<and> listing_p4 ''price'' = Some NA
   \<and> find_span_text (detail_page None ''Gleem, Alexandria'') ''Area'' \<noteq> None
   \<and> anchor_target (find_span_text (detail_page None ''Gleem, Alexandria'') ''Area'')
       = Some (Span '' 120 '' None)
   \<and> listing_p4 ''area'' = Some ''120''
   \<and> text_or_NA (Some (Span padded_price None)) = ''2,500,000''"
proof -
  let ?soup = "detail_page None ''Gleem, Alexandria''"
  note t = extract_field_fallback
    [of example_web "''/p4''" "''http://site''" example_labels "[''Smouha'', ''Gleem'']" listing_p4
        ?soup "''Price''" "''Area''" "''Bedrooms''" "''Bathrooms''" "''Location''"
        "Span '' 120 '' None"]
  have f: "fetch example_web (''http://site'' @ ''/p4'') = Inr ?soup"
    by (simp add: fetch_def example_web_def)
  have l: "getitem2 example_labels ''price'' ''aria_label'' = Inr ''Price''"
    "getitem2 example_labels ''area'' ''text_label'' = Inr ''Area''"
    "getitem2 example_labels ''bedrooms'' ''text_label'' = Inr ''Bedrooms''"
    "getitem2 example_labels ''bathrooms'' ''text_label'' = Inr ''Bathrooms''"
    "getitem2 example_labels ''location'' ''aria_label'' = Inr ''Location''"
    by (simp_all add: getitem2_def getitem_def bind_res_def example_labels_def)
  have s: "find_span_text ?soup ''Area'' \<noteq> None \<longrightarrow> anchor_target (find_span_text ?soup ''Area'') \<noteq> None"
    "find_span_text ?soup ''Bedrooms'' \<noteq> None \<longrightarrow> anchor_target (find_span_text ?soup ''Bedrooms'') \<noteq> None"
    "find_span_text ?soup ''Bathrooms'' \<noteq> None \<longrightarrow> anchor_target (find_span_text ?soup ''Bathrooms'') \<noteq> None"
    by (simp_all add: detail_page_def anchor_target_def)
  have p: "find_span_aria_label ?soup ''Price'' = None"
    by (simp add: detail_page_def)
  have a: "find_span_text ?soup ''Area'' \<noteq> None"
    "anchor_target (find_span_text ?soup ''Area'') = Some (Span '' 120 '' None)"
    by (simp_all add: detail_page_def anchor_target_def)
  from t extract_p4 have d: "dom listing_p4 = listing_keys" by blast
  from t f l s have e: "extract_property_data example_web ''/p4'' ''http://site'' example_labels
      [''Smouha'', ''Gleem''] =
          Inr [''price'' \<mapsto> text_or_NA (find_span_aria_label ?soup ''Price''),
               ''area'' \<mapsto> text_or_NA (anchor_target (find_span_text ?soup ''Area'')),
               ''bedrooms'' \<mapsto> text_or_NA (anchor_target (find_span_text ?soup ''Bedrooms'')),
               ''bathrooms'' \<mapsto> text_or_NA (anchor_target (find_span_text ?soup ''Bathrooms'')),
               ''location'' \<mapsto> ensure_alexandria [''Smouha'', ''Gleem'']
                                  (text_or_NA (find_span_aria_label ?soup ''Location''))]"
    by blast
  from t have v: "text_or_NA None = NA" "text_or_NA (Some (Span '' 120 '' None)) = strip (span_text (Span '' 120 '' None))"
    by blast+
  from e extract_p4 have eq: "listing_p4 = [''price'' \<mapsto> text_or_NA (find_span_aria_label ?soup ''Price''),
               ''area'' \<mapsto> text_or_NA (anchor_target (find_span_text ?soup ''Area'')),
               ''bedrooms'' \<mapsto> text_or_NA (anchor_target (find_span_text ?soup ''Bedrooms'')),
               ''bathrooms'' \<mapsto> text_or_NA (anchor_target (find_span_text ?soup ''Bathrooms'')),
               ''location'' \<mapsto> ensure_alexandria [''Smouha'', ''Gleem'']
                                  (text_or_NA (find_span_aria_label ?soup ''Location''))]"
    by simp
  have "listing_p4 ''price'' = Some (text_or_NA (find_span_aria_label ?soup ''Price''))"
    and "listing_p4 ''area'' = Some (text_or_NA (anchor_target (find_span_text ?soup ''Area'')))"
    by (subst eq, simp)+
  then have q: "listing_p4 ''price'' = Some NA" "listing_p4 ''area'' = Some (strip '' 120 '')"
    unfolding p a v by simp_all
  have "strip '' 120 '' = ''120''"
    by (simp add: strip_def isspace_def whitespace_def)
  with q have q': "listing_p4 ''area'' = Some ''120''" by simp
  from extract_field_fallback [where e = "Span padded_price None"]
  have "text_or_NA (Some (Span padded_price None)) = strip (span_text (Span padded_price None))"
    by blast
  then have x: "text_or_NA (Some (Span padded_price None)) = ''2,500,000''"
    by (simp add: strip_padded_price)
  from extract_p4 d p q(1) q' a x show ?thesis by blast
qed

theorem extracted_location_replaced_counterexample:
  "find_span_aria_label (detail_page None ''Cairo'') ''Price'' = None
   \<and> text_or_NA (find_span_aria_label (detail_page None ''Cairo'') ''Location'') = ''Cairo''
   \<and> extract_property_data example_web ''/p2'' ''http://site'' example_labels [''Smouha'', ''Gleem'']
       = Inr listing_p2
   \<and> listing_p2 ''location'' = Some ''N/A''"
  by (simp add: extract_p2) (simp add: eval_defs listing_p2_def)

text \<open>
  Claim C4. Let \<open>raw\<close> be the location text extracted from the page, containing at least one
  configured neighborhood. If \<open>raw\<close> does not contain \<^verbatim>\<open>Alexandria\<close>, the stored location
  is \<open>raw\<close> followed by \<^verbatim>\<open>", Alexandria"\<close>, and \<^verbatim>\<open>Alexandria\<close> occurs in it exactly once, at
  the position after \<open>raw\<close> and the separator. If \<open>raw\<close> contains \<^verbatim>\<open>Alexandria\<close>, the stored
  location is \<open>raw\<close>. Both cases are read under the claim's condition that \<open>raw\<close> contains
  a configured neighborhood.
\<close>

theorem location_suffix_appended_once:
  assumes "extract_property_data w url base_domain lbls neighborhoods = Inr data"
      and "fetch w (base_domain @ url) = Inr soup"
      and "getitem2 lbls ''location'' ''aria_label'' = Inr location_label"
      and "raw = text_or_NA (find_span_aria_label soup location_label)"
      and "list_ex (\<lambda>neighborhood. str_in neighborhood raw) neighborhoods"
  shows "(\<not> str_in Alexandria raw \<longrightarrow>
            data ''location'' = Some (raw @ '', Alexandria'')
          \<and> occurrences Alexandria (raw @ '', Alexandria'') = [length raw + 2])
       \<and> (str_in Alexandria raw \<longrightarrow> data ''location'' = Some raw)"
proof -
  have loc: "data ''location'' = Some (ensure_alexandria neighborhoods raw)"
    unfolding assms(4) by (rule extract_location [OF assms(1-3)])
  show ?thesis
  proof (cases "str_in Alexandria raw")
    case True
    with loc assms(5) show ?thesis by (simp add: ensure_alexandria_def)
  next
    case False
    with loc assms(5) have "data ''location'' = Some (raw @ '', Alexandria'')"
      by (simp add: ensure_alexandria_def)
    with False occurrences_appended [OF False] show ?thesis by simp
  qed
qed

theorem location_suffix_appended_once_witness:
  "extract_property_data example_web ''/p1'' ''http://site'' example_labels [''Smouha'', ''Gleem'']
     = Inr listing_p1
   \<and> list_ex (\<lambda>neighborhood. str_in neighborhood ''Smouha'') [''Smouha'', ''Gleem'']
   \<and> \<not> str_in Alexandria ''Smouha''
   \<and> listing_p1 ''location'' = Some ''Smouha, Alexandria''
   \<and> occurrences Alexandria ''Smouha, Alexandria'' = [8]
   \<and> extract_property_data example_web ''/p4'' ''http://site'' example_labels [''Smouha'', ''Gleem'']
     = Inr listing_p4
   \<and> list_ex (\<lambda>neighborhood. str_in neighborhood ''Gleem, Alexandria'') [''Smouha'', ''Gleem'']
   \<and> str_in Alexandria ''Gleem, Alexandria''
   \<and> listing_p4 ''location'' = Some ''Gleem, Alexandria''"
proof -
  have f1: "fetch example_web (''http://site'' @ ''/p1'') = Inr (detail_page (Some padded_price) ''Smouha'')"
    by (simp add: fetch_def example_web_def)
  have f4: "fetch example_web (''http://site'' @ ''/p4'') = Inr (detail_page None ''Gleem, Alexandria'')"
    by (simp add: fetch_def example_web_def)
  have l: "getitem2 example_labels ''location'' ''aria_label'' = Inr ''Location''"
    by (simp add: getitem2_def getitem_def bind_res_def example_labels_def)
  have r1: "''Smouha'' = text_or_NA (find_span_aria_label (detail_page (Some padded_price) ''Smouha'') ''Location'')"
    by (simp add: eval_defs)
  have r4: "''Gleem, Alexandria'' = text_or_NA (find_span_aria_label (detail_page None ''Gleem, Alexandria'') ''Location'')"
    by (simp add: eval_defs)
  have n1: "list_ex (\<lambda>neighborhood. str_in neighborhood ''Smouha'') [''Smouha'', ''Gleem'']"
    by simp
  have n4: "list_ex (\<lambda>neighborhood. str_in neighborhood ''Gleem, Alexandria'') [''Smouha'', ''Gleem'']"
    by simp
  have a1: "\<not> str_in Alexandria ''Smouha''" by (simp add: Alexandria_def)
  have a4: "str_in Alexandria ''Gleem, Alexandria''" by (simp add: Alexandria_def)
  from location_suffix_appended_once [OF extract_p1 f1 l r1 n1] a1
  have "listing_p1 ''location'' = Some (''Smouha'' @ '', Alexandria'')"
    and "occurrences Alexandria (''Smouha'' @ '', Alexandria'') = [length ''Smouha'' + 2]"
    by blast+
  then have c1: "listing_p1 ''location'' = Some ''Smouha, Alexandria''"
    and o1: "occurrences Alexandria ''Smouha, Alexandria'' = [8]"
    by simp_all
  from location_suffix_appended_once [OF extract_p4 f4 l r4 n4] a4
  have c4: "listing_p4 ''location'' = Some ''Gleem, Alexandria''"
    by blast
  from extract_p1 n1 a1 c1 o1 extract_p4 n4 a4 c4 show ?thesis
    by blast
qed

subsection \<open>Crawling and the acceptance gate\<close>

text \<open>
  Claim C3. If every page \<open>1..k\<close> is fetched with the links \<open>links p\<close>, page \<open>k\<close> with
  \<open>1 \<le> k \<le> max_pages\<close> is the first page without links, then the crawl returns the links of
  the pages \<open>1..k-1\<close> in page order and has requested exactly the pages \<open>1..k\<close>. If every
  page \<open>1..max_pages\<close> has links, it returns the links of all of them and has requested
  exactly those pages.
\<close>

theorem crawl_stops_at_first_empty_page:
  "(1 \<le> k \<and> k \<le> max_pages
      \<and> (\<forall>p\<in>{1..k}. get_property_links w (BASE_DOMAIN config @ BASE_PATH config) p
                         (LISTING_DIV_CLASS config) = Inr (links p))
      \<and> (\<forall>p\<in>{1..<k}. links p \<noteq> []) \<and> links k = []
    \<longrightarrow> crawl w config max_pages = Inr (concat (map links [1..k - 1]), [1..k]))
   \<and> ((\<forall>p\<in>{1..max_pages}. get_property_links w (BASE_DOMAIN config @ BASE_PATH config) p
                               (LISTING_DIV_CLASS config) = Inr (links p) \<and> links p \<noteq> [])
    \<longrightarrow> crawl w config max_pages = Inr (concat (map links [1..max_pages]), [1..max_pages]))"
proof (intro conjI impI)
  let ?base = "BASE_DOMAIN config @ BASE_PATH config" and ?cls = "LISTING_DIV_CLASS config"
  assume h: "1 \<le> k \<and> k \<le> max_pages
      \<and> (\<forall>p\<in>{1..k}. get_property_links w ?base p ?cls = Inr (links p))
      \<and> (\<forall>p\<in>{1..<k}. links p \<noteq> []) \<and> links k = []"
  then have split: "[1..max_pages] = [1..k - 1] @ k # [k + 1..max_pages]"
    by (simp add: upto_split3)
  from h have before:
    "\<forall>p\<in>set [1..k - 1]. get_property_links w ?base p ?cls = Inr (links p) \<and> links p \<noteq> []"
    by auto
  from h have stop: "get_property_links w ?base k ?cls = Inr []"
    by auto
  have "crawl w config max_pages =
        collect_links w ?base ?cls ([1..k - 1] @ k # [k + 1..max_pages]) ([], [])"
    by (simp add: crawl_def split)
  also have "\<dots> = collect_links w ?base ?cls (k # [k + 1..max_pages])
                    ([] @ concat (map links [1..k - 1]), [] @ [1..k - 1])"
    by (rule collect_links_nonempty_prefix [OF before])
  also have "\<dots> = Inr ([] @ concat (map links [1..k - 1]), ([] @ [1..k - 1]) @ [k])"
    by (rule collect_links_stop [OF stop])
  also have "\<dots> = Inr (concat (map links [1..k - 1]), [1..k])"
    using h by (simp add: upto_rec2 [of 1 k])
  finally show "crawl w config max_pages = Inr (concat (map links [1..k - 1]), [1..k])" .
next
  let ?base = "BASE_DOMAIN config @ BASE_PATH config" and ?cls = "LISTING_DIV_CLASS config"
  assume h: "\<forall>p\<in>{1..max_pages}. get_property_links w ?base p ?cls = Inr (links p) \<and> links p \<noteq> []"
  then have all:
    "\<forall>p\<in>set [1..max_pages]. get_property_links w ?base p ?cls = Inr (links p) \<and> links p \<noteq> []"
    by simp
  have "crawl w config max_pages = collect_links w ?base ?cls ([1..max_pages] @ []) ([], [])"
    by (simp add: crawl_def)
  also have "\<dots> = collect_links w ?base ?cls []
                    ([] @ concat (map links [1..max_pages]), [] @ [1..max_pages])"
    by (rule collect_links_nonempty_prefix [OF all])
  finally show "crawl w config max_pages
                = Inr (concat (map links [1..max_pages]), [1..max_pages])"
    by simp
qed

theorem crawl_stops_at_first_empty_page_witness:
  "(1::int) \<le> 3 \<and> (3::int) \<le> 5
   \<and> get_property_links example_web ''http://site/list?page='' 1 ''card'' = Inr (example_links 1)
   \<and> get_property_links example_web ''http://site/list?page='' 2 ''card'' = Inr (example_links 2)
   \<and> get_property_links example_web ''http://site/list?page='' 3 ''card'' = Inr (example_links 3)
   \<and> example_links 1 \<noteq> [] \<and> example_links 2 \<noteq> [] \<and> example_links 3 = []
   \<and> crawl example_web example_config 5 = Inr ([''/p1'', ''/p2'', ''/p4''], [1, 2, 3])
   \<and> crawl example_web example_config 2 = Inr ([''/p1'', ''/p2'', ''/p4''], [1, 2])"
proof -
  have ne: "\<forall>p\<in>{1..<3}. example_links p \<noteq> []"
    by (auto simp: example_links_def)
  have e: "example_links 1 \<noteq> []" "example_links 2 \<noteq> []" "example_links 3 = []"
    by (simp_all add: example_links_def)
  have two: "\<forall>p\<in>{1..2}. get_property_links example_web ''http://site/list?page='' p ''card''
                      = Inr (example_links p) \<and> example_links p \<noteq> []"
    using links_example_all ne by auto
  have u1: "[1..3 - 1] = [1, 2::int]" "[1..3] = [1, 2, 3::int]" "[1..2] = [1, 2::int]"
    by (simp_all add: upto_rec1)
  have c: "concat (map example_links [1, 2]) = [''/p1'', ''/p2'', ''/p4'']"
    by (simp add: example_links_def)
  from crawl_stops_at_first_empty_page [of 3 5 example_web example_config example_links]
       links_example_all ne e(3)
  have a: "crawl example_web example_config 5 = Inr ([''/p1'', ''/p2'', ''/p4''], [1, 2, 3])"
    unfolding example_config_sel u1 c by simp
  from crawl_stops_at_first_empty_page [of 3 2 example_web example_config example_links] two
  have b: "crawl example_web example_config 2 = Inr ([''/p1'', ''/p2'', ''/p4''], [1, 2])"
    unfolding example_config_sel u1 c by blast
  from links_example e a b show ?thesis by simp
qed

text \<open>
  Claim C5. A listing whose extracted location text contains none of the configured
  neighborhoods gets the location \<^verbatim>\<open>N/A\<close>, and a record with that location is in no
  batch that \<open>scrape_website\<close> returns. When \<open>scrape_website\<close> returns, its batch is
  the sequence of the records extracted from the crawled links, in order, restricted to
  those whose location is not \<^verbatim>\<open>N/A\<close>: a record is in the batch exactly when its
  location is not the sentinel, and no other condition is applied.
\<close>

theorem excluded_unless_location_accepted:
  "(extract_property_data w url base_domain lbls neighborhoods = Inr data
      \<and> fetch w (base_domain @ url) = Inr soup
      \<and> getitem2 lbls ''location'' ''aria_label'' = Inr location_label
      \<and> \<not> list_ex (\<lambda>neighborhood.
                str_in neighborhood (text_or_NA (find_span_aria_label soup location_label)))
              neighborhoods
    \<longrightarrow> data ''location'' = Some NA)
   \<and> (scrape_website w config max_pages = Inr batch \<and> excluded ''location'' = Some NA
    \<longrightarrow> excluded \<notin> set batch)
   \<and> (scrape_website w config max_pages = Inr batch
    \<longrightarrow> (\<exists>links fetched ds.
           crawl w config max_pages = Inr (links, fetched)
         \<and> map (\<lambda>link. extract_property_data w link (BASE_DOMAIN config) (FIELDS config)
                        (NEIGHBORHOODS config)) links = map Inr ds
         \<and> batch = filter (\<lambda>d. d ''location'' \<noteq> Some NA) ds))"
proof (intro conjI impI)
  assume h: "extract_property_data w url base_domain lbls neighborhoods = Inr data
      \<and> fetch w (base_domain @ url) = Inr soup
      \<and> getitem2 lbls ''location'' ''aria_label'' = Inr location_label
      \<and> \<not> list_ex (\<lambda>neighborhood.
                str_in neighborhood (text_or_NA (find_span_aria_label soup location_label)))
              neighborhoods"
  then have e: "extract_property_data w url base_domain lbls neighborhoods = Inr data"
    and f: "fetch w (base_domain @ url) = Inr soup"
    and g: "getitem2 lbls ''location'' ''aria_label'' = Inr location_label"
    by simp_all
  have "data ''location'' = Some (ensure_alexandria neighborhoods
                 (text_or_NA (find_span_aria_label soup location_label)))"
    by (rule extract_location [OF e f g])
  with h show "data ''location'' = Some NA" by (simp add: ensure_alexandria_def)
next
  assume h: "scrape_website w config max_pages = Inr batch \<and> excluded ''location'' = Some NA"
  then have "scrape_website w config max_pages = Inr batch" by simp
  from scrape_website_Inr [OF this] obtain ds where
    "batch = filter (\<lambda>d. d ''location'' \<noteq> Some NA) ds" by blast
  with h show "excluded \<notin> set batch" by simp
next
  assume "scrape_website w config max_pages = Inr batch"
  then show "\<exists>links fetched ds.
           crawl w config max_pages = Inr (links, fetched)
         \<and> map (\<lambda>link. extract_property_data w link (BASE_DOMAIN config) (FIELDS config)
                        (NEIGHBORHOODS config)) links = map Inr ds
         \<and> batch = filter (\<lambda>d. d ''location'' \<noteq> Some NA) ds"
    by (rule scrape_website_Inr)
qed

theorem excluded_unless_location_accepted_witness:
  "extract_property_data example_web ''/p2'' ''http://site'' example_labels [''Smouha'', ''Gleem'']
     = Inr listing_p2
   \<and> fetch example_web (''http://site'' @ ''/p2'') = Inr (detail_page None ''Cairo'')
   \<and> getitem2 example_labels ''location'' ''aria_label'' = Inr ''Location''
   \<and> \<not> list_ex (\<lambda>neighborhood.
            str_in neighborhood
              (text_or_NA (find_span_aria_label (detail_page None ''Cairo'') ''Location'')))
          [''Smouha'', ''Gleem'']
   \<and> listing_p2 ''location'' = Some NA
   \<and> scrape_website example_web example_config 5 = Inr [listing_p1, listing_p4]
   \<and> listing_p2 \<notin> set [listing_p1, listing_p4]
   \<and> (\<exists>ds. map (\<lambda>link. extract_property_data example_web link ''http://site'' example_labels
                          [''Smouha'', ''Gleem'']) [''/p1'', ''/p2'', ''/p4''] = map Inr ds
          \<and> [listing_p1, listing_p4] = filter (\<lambda>d. d ''location'' \<noteq> Some NA) ds)"
proof -
  have f: "fetch example_web (''http://site'' @ ''/p2'') = Inr (detail_page None ''Cairo'')"
    by (simp add: fetch_def example_web_def)
  have l: "getitem2 example_labels ''location'' ''aria_label'' = Inr ''Location''"
    by (simp add: getitem2_def getitem_def bind_res_def example_labels_def)
  have n: "\<not> list_ex (\<lambda>neighborhood.
            str_in neighborhood
              (text_or_NA (find_span_aria_label (detail_page None ''Cairo'') ''Location'')))
          [''Smouha'', ''Gleem'']"
    by (simp add: eval_defs)
  note t = excluded_unless_location_accepted
    [of example_web "''/p2''" "''http://site''" example_labels "[''Smouha'', ''Gleem'']" listing_p2
        "detail_page None ''Cairo''" "''Location''" example_config 5 "[listing_p1, listing_p4]"
        listing_p2]
  from t extract_p2 f l n
  have a: "listing_p2 ''location'' = Some NA" by blast
  from t scrape_example a
  have x: "listing_p2 \<notin> set [listing_p1, listing_p4]" by blast
  from t scrape_example crawl_example
  have b: "\<exists>ds. map (\<lambda>link. extract_property_data example_web link ''http://site'' example_labels
                          [''Smouha'', ''Gleem'']) [''/p1'', ''/p2'', ''/p4''] = map Inr ds
          \<and> [listing_p1, listing_p4] = filter (\<lambda>d. d ''location'' \<noteq> Some NA) ds"
    unfolding example_config_sel example_config_domain by auto
  from extract_p2 f l n a scrape_example x b show ?thesis by blast
qed

text \<open>
  Claim C10. Every record in the batch returned by \<open>scrape_website\<close> was extracted from a
  crawled link whose page has a location text that contains a configured neighborhood;
  its location is the result of the neighborhood check on that text and contains
  \<^verbatim>\<open>Alexandria\<close>, so the second-pass normalization leaves it unchanged. Applied to the
  frame of a batch that is not empty, the second pass returns the frame unchanged. The
  property needs no assumption on the configured neighborhoods. (The frame of an empty
  batch has no column \<^verbatim>\<open>location\<close>, and the second pass raises \<^verbatim>\<open>KeyError\<close> on it.)
\<close>

theorem accepted_location_contains_Alexandria:
  assumes "scrape_website w config max_pages = Inr batch"
  shows "(\<forall>d\<in>set batch. \<exists>links fetched link soup location_label location.
            crawl w config max_pages = Inr (links, fetched) \<and> link \<in> set links
          \<and> extract_property_data w link (BASE_DOMAIN config) (FIELDS config)
                (NEIGHBORHOODS config) = Inr d
          \<and> fetch w (BASE_DOMAIN config @ link) = Inr soup
          \<and> getitem2 (FIELDS config) ''location'' ''aria_label'' = Inr location_label
          \<and> list_ex (\<lambda>neighborhood.
                 str_in neighborhood (text_or_NA (find_span_aria_label soup location_label)))
               (NEIGHBORHOODS config)
          \<and> location = ensure_alexandria (NEIGHBORHOODS config)
                          (text_or_NA (find_span_aria_label soup location_label))
          \<and> d ''location'' = Some location
          \<and> str_in Alexandria location
          \<and> normalize_location location = location)
       \<and> (batch \<noteq> [] \<longrightarrow>
            apply_location normalize_location (DataFrame batch) = Inr (DataFrame batch))"
proof -
  have each: "\<forall>d\<in>set batch. \<exists>links fetched link soup location_label location.
            crawl w config max_pages = Inr (links, fetched) \<and> link \<in> set links
          \<and> extract_property_data w link (BASE_DOMAIN config) (FIELDS config)
                (NEIGHBORHOODS config) = Inr d
          \<and> fetch w (BASE_DOMAIN config @ link) = Inr soup
          \<and> getitem2 (FIELDS config) ''location'' ''aria_label'' = Inr location_label
          \<and> list_ex (\<lambda>neighborhood.
                 str_in neighborhood (text_or_NA (find_span_aria_label soup location_label)))
               (NEIGHBORHOODS config)
          \<and> location = ensure_alexandria (NEIGHBORHOODS config)
                          (text_or_NA (find_span_aria_label soup location_label))
          \<and> d ''location'' = Some location
          \<and> str_in Alexandria location
          \<and> normalize_location location = location"
  proof
    fix d assume "d \<in> set batch"
    from scrape_website_member [OF assms this] obtain links fetched link where
        c: "crawl w config max_pages = Inr (links, fetched)" and l: "link \<in> set links"
      and e: "extract_property_data w link (BASE_DOMAIN config) (FIELDS config)
                (NEIGHBORHOODS config) = Inr d"
      and gate: "d ''location'' \<noteq> Some NA"
      by blast
    from extract_property_data_Inr [OF e] obtain soup location_label where
        f: "fetch w (BASE_DOMAIN config @ link) = Inr soup"
      and g: "getitem2 (FIELDS config) ''location'' ''aria_label'' = Inr location_label"
      by blast
    let ?raw = "text_or_NA (find_span_aria_label soup location_label)"
    let ?location = "ensure_alexandria (NEIGHBORHOODS config) ?raw"
    have loc: "d ''location'' = Some ?location"
      by (rule extract_location [OF e f g])
    from gate loc have ne: "?location \<noteq> NA" by simp
    with ensure_alexandria_cases [of "NEIGHBORHOODS config" ?raw]
    have n: "list_ex (\<lambda>neighborhood. str_in neighborhood ?raw) (NEIGHBORHOODS config)"
      and a: "str_in Alexandria ?location"
      by auto
    from a have "normalize_location ?location = ?location"
      by (simp add: normalize_location_def)
    with c l e f g loc n a show "\<exists>links fetched link soup location_label location.
            crawl w config max_pages = Inr (links, fetched) \<and> link \<in> set links
          \<and> extract_property_data w link (BASE_DOMAIN config) (FIELDS config)
                (NEIGHBORHOODS config) = Inr d
          \<and> fetch w (BASE_DOMAIN config @ link) = Inr soup
          \<and> getitem2 (FIELDS config) ''location'' ''aria_label'' = Inr location_label
          \<and> list_ex (\<lambda>neighborhood.
                 str_in neighborhood (text_or_NA (find_span_aria_label soup location_label)))
               (NEIGHBORHOODS config)
          \<and> location = ensure_alexandria (NEIGHBORHOODS config)
                          (text_or_NA (find_span_aria_label soup location_label))
          \<and> d ''location'' = Some location
          \<and> str_in Alexandria location
          \<and> normalize_location location = location"
      by blast
  qed
  then have fixed: "\<forall>d\<in>set batch. \<exists>x. d ''location'' = Some x \<and> normalize_location x = x"
    by blast
  have "batch \<noteq> [] \<longrightarrow>
          apply_location normalize_location (DataFrame batch) = Inr (DataFrame batch)"
    using apply_location_DataFrame [OF _ fixed] by blast
  with each show ?thesis by blast
qed

theorem accepted_location_contains_Alexandria_witness:
  "scrape_website example_web example_config 5 = Inr [listing_p1, listing_p4]
   \<and> listing_p1 \<in> set [listing_p1, listing_p4]
   \<and> (\<exists>link location. link \<in> set [''/p1'', ''/p2'', ''/p4'']
          \<and> extract_property_data example_web link (BASE_DOMAIN example_config)
               (FIELDS example_config) (NEIGHBORHOODS example_config) = Inr listing_p1
          \<and> listing_p1 ''location'' = Some location \<and> str_in Alexandria location
          \<and> normalize_location location = location)
   \<and> [listing_p1, listing_p4] \<noteq> []
   \<and> apply_location normalize_location (DataFrame [listing_p1, listing_p4] :: int frame)
       = Inr (DataFrame [listing_p1, listing_p4])"
proof -
  note t = accepted_location_contains_Alexandria [OF scrape_example]
  from t have a: "\<forall>d\<in>set [listing_p1, listing_p4]. \<exists>links fetched link location.
            crawl example_web example_config 5 = Inr (links, fetched) \<and> link \<in> set links
          \<and> extract_property_data example_web link (BASE_DOMAIN example_config)
               (FIELDS example_config) (NEIGHBORHOODS example_config) = Inr d
          \<and> d ''location'' = Some location \<and> str_in Alexandria location
          \<and> normalize_location location = location"
    by blast
  have m: "listing_p1 \<in> set [listing_p1, listing_p4]" by simp
  from a m obtain links fetched link location where
      c: "crawl example_web example_config 5 = Inr (links, fetched)" and l: "link \<in> set links"
    and e: "extract_property_data example_web link (BASE_DOMAIN example_config)
               (FIELDS example_config) (NEIGHBORHOODS example_config) = Inr listing_p1"
    and r: "listing_p1 ''location'' = Some location" "str_in Alexandria location"
           "normalize_location location = location"
    by blast
  from c crawl_example have "links = [''/p1'', ''/p2'', ''/p4'']" by simp
  with l e r have x: "\<exists>link location. link \<in> set [''/p1'', ''/p2'', ''/p4'']
          \<and> extract_property_data example_web link (BASE_DOMAIN example_config)
               (FIELDS example_config) (NEIGHBORHOODS example_config) = Inr listing_p1
          \<and> listing_p1 ''location'' = Some location \<and> str_in Alexandria location
          \<and> normalize_location location = location"
    by blast
  have n: "[listing_p1, listing_p4] \<noteq> []" by simp
  from t n have b: "apply_location normalize_location (DataFrame [listing_p1, listing_p4] :: int frame)
       = Inr (DataFrame [listing_p1, listing_p4])"
    by blast
  from scrape_example m x n b show ?thesis by blast
qed

end
